theory Spec2Isabelle
  imports Complex_Main "HOL-Library.Stream"
begin

section \<open>The rate-limited client of app.py\<close>

text \<open>
  The program talks to a remote HTTP API, keeps two cached lists and the last known quota in
  module-level variables, and paces itself with \<^verbatim>\<open>time.sleep\<close>. The embedding makes all
  of this explicit:
  \<^item> the module-level variables are the fields of the record \<open>state\<close>;
  \<^item> the clock read by \<^verbatim>\<open>time.time()\<close> is the field \<open>now\<close>; it advances by the
    duration of every \<^verbatim>\<open>time.sleep\<close> (Python floats are read as exact reals);
  \<^item> the remote server is the field \<open>server\<close>, the stream of replies that the next
    requests are going to receive, one reply being consumed by each request;
  \<^item> every sleep and every request is appended to the field \<open>trace\<close>, which nothing in the
    program reads: it only makes the network traffic observable in theorems;
  \<^item> an exception is the \<open>Raise\<close> alternative of a result;
  \<^item> a loop that may run forever (the paginator retries as long as the server answers 429)
    returns an \<open>option\<close>, \<open>None\<close> standing for a run that never returns.
  Text is the UTF-8 encoding of a Python \<^verbatim>\<open>str\<close>: a list of bytes.

  Two things that belong to the interpreter and its platform are fields of the state as
  well, so that every theorem holds whatever they are: \<open>fromtimestamp_ok\<close>, the time
  stamps that \<^verbatim>\<open>datetime.fromtimestamp\<close> accepts (it raises for the others), and
  \<open>str_lower\<close>, the function \<^verbatim>\<open>str.lower\<close> with its Unicode case mapping.

  The \<^verbatim>\<open>print\<close> calls are left out, except where their arguments can raise: line 83
  formats the reset time inside \<open>make_api_request\<close>, and that is modelled. The
  interface built on top of the entry points is left out.
\<close>

subsection \<open>Data\<close>

type_synonym url = string

datatype http_method = GET | DELETE | PUT

type_synonym params = "(string \<times> int) list"

text \<open>One element of the JSON array of a list endpoint: a user object, of which only
  the key \<^verbatim>\<open>login\<close> is read.\<close>

datatype user = User (login: string)

text \<open>A quota header: absent, a text that \<^verbatim>\<open>int\<close> parses, or a text on which
  \<^verbatim>\<open>int\<close> raises \<^verbatim>\<open>ValueError\<close>.\<close>

datatype header = Missing | Header int | Malformed

text \<open>
  The body of a response with a status of 400 or more, as line 128 reads it: empty
  (\<^verbatim>\<open>response.text\<close> is falsy); a JSON object, with its \<^verbatim>\<open>message\<close> if it has one;
  JSON that is not an object, on which \<^verbatim>\<open>.get\<close> raises \<^verbatim>\<open>AttributeError\<close>; or text
  that is not JSON, on which \<^verbatim>\<open>response.json()\<close> raises a
  \<^verbatim>\<open>requests.exceptions.JSONDecodeError\<close> with the given text, a
  \<^verbatim>\<open>RequestException\<close> that line 133 catches.
\<close>

datatype error_body = NoBody | JsonObject "string option" | JsonOther | NotJson string

text \<open>
  What the program reads of a \<^verbatim>\<open>requests.Response\<close>: the status code, the two quota
  headers, the body and the link to the next page. \<open>users\<close> is \<^verbatim>\<open>response.json()\<close>
  of a list endpoint, \<open>None\<close> when decoding raises; \<open>profile\<close> is
  \<^verbatim>\<open>response.json()\<close> of the user endpoint, likewise; \<open>error_body\<close> is the body of
  an error response.
\<close>

record response =
  status_code :: int
  x_ratelimit_remaining :: header
  x_ratelimit_reset :: header
  users :: "user list option"
  profile :: "string option"
  error_body :: error_body
  next_url :: "url option"

text \<open>A request is answered by a response, or fails in transport
  (\<^verbatim>\<open>requests.exceptions.RequestException\<close>, with its text).\<close>

datatype reply = Http response | Transport string

text \<open>
  \<^verbatim>\<open>RateLimitExceededError\<close> is a subclass of \<^verbatim>\<open>GitHubAPIError\<close> whose status code is
  429. \<^verbatim>\<open>JSONDecodeError\<close> stands for a body that does not decode, \<open>ValueError\<close> for
  what \<^verbatim>\<open>int\<close> raises on a malformed header and for what
  \<^verbatim>\<open>datetime.fromtimestamp\<close> raises on a time stamp out of range (\<^verbatim>\<open>ValueError\<close>,
  \<^verbatim>\<open>OverflowError\<close> or \<^verbatim>\<open>OSError\<close>: no handler of the program tells them apart).
  The last three have no status code: \<open>error_status_code\<close> is only read behind
  \<open>is_GitHubAPIError\<close>.
\<close>

datatype error =
    GitHubAPIError int string url
  | RateLimitExceededError int url
  | JSONDecodeError
  | ValueError
  | AttributeError

fun is_GitHubAPIError :: "error \<Rightarrow> bool" where
  "is_GitHubAPIError (GitHubAPIError c m u) = True"
| "is_GitHubAPIError (RateLimitExceededError r u) = True"
| "is_GitHubAPIError e = False"

fun is_RateLimitExceededError :: "error \<Rightarrow> bool" where
  "is_RateLimitExceededError (RateLimitExceededError r u) = True"
| "is_RateLimitExceededError e = False"

fun error_status_code :: "error \<Rightarrow> int" where
  "error_status_code (GitHubAPIError c m u) = c"
| "error_status_code (RateLimitExceededError r u) = 429"
| "error_status_code e = 0"

datatype 'a result = Return 'a | Raise error

datatype event = Slept real | Sent http_method url "params option"

record state =
  rate_limit_remaining :: int
  rate_limit_reset :: int
  cache_data_following :: "string list"
  cache_data_followers :: "string list"
  cache_timestamp_following :: real
  cache_timestamp_followers :: real
  USERNAME :: string
  fromtimestamp_ok :: "int \<Rightarrow> bool"
  str_lower :: "string \<Rightarrow> string"
  now :: real
  server :: "reply stream"
  trace :: "event list"

definition BASE_URL :: url where
  "BASE_URL = ''https://api.github.com''"

definition CACHE_TIMEOUT :: real where
  "CACHE_TIMEOUT = 300"

definition MIN_RATE_LIMIT_THRESHOLD :: int where
  "MIN_RATE_LIMIT_THRESHOLD = 100"

subsection \<open>Text helpers\<close>

text \<open>
  \<^verbatim>\<open>str.strip()\<close> removes white space from both ends. The white space of Python is the
  code points U+0009 to U+000D, U+001C to U+0020, U+0085, U+00A0, U+1680, U+2000 to
  U+200A, U+2028, U+2029, U+202F, U+205F and U+3000; \<open>whitespace\<close> lists their UTF-8
  encodings. In UTF-8 text an encoding at the start or at the end of the bytes is a code
  point of the text, so removing encodings from the bytes removes code points.
\<close>

definition whitespace :: "string list" where
  "whitespace =
     [[CHR 0x09], [CHR 0x0A], [CHR 0x0B], [CHR 0x0C], [CHR 0x0D],
      [CHR 0x1C], [CHR 0x1D], [CHR 0x1E], [CHR 0x1F], [CHR 0x20],
      [CHR 0xC2, CHR 0x85], [CHR 0xC2, CHR 0xA0], [CHR 0xE1, CHR 0x9A, CHR 0x80],
      [CHR 0xE2, CHR 0x80, CHR 0x80], [CHR 0xE2, CHR 0x80, CHR 0x81],
      [CHR 0xE2, CHR 0x80, CHR 0x82], [CHR 0xE2, CHR 0x80, CHR 0x83],
      [CHR 0xE2, CHR 0x80, CHR 0x84], [CHR 0xE2, CHR 0x80, CHR 0x85],
      [CHR 0xE2, CHR 0x80, CHR 0x86], [CHR 0xE2, CHR 0x80, CHR 0x87],
      [CHR 0xE2, CHR 0x80, CHR 0x88], [CHR 0xE2, CHR 0x80, CHR 0x89],
      [CHR 0xE2, CHR 0x80, CHR 0x8A], [CHR 0xE2, CHR 0x80, CHR 0xA8],
      [CHR 0xE2, CHR 0x80, CHR 0xA9], [CHR 0xE2, CHR 0x80, CHR 0xAF],
      [CHR 0xE2, CHR 0x81, CHR 0x9F], [CHR 0xE3, CHR 0x80, CHR 0x80]]"

definition leading_space :: "string \<Rightarrow> string option" where
  "leading_space xs = List.find (\<lambda>w. take (length w) xs = w) whitespace"

definition trailing_space :: "string \<Rightarrow> string option" where
  "trailing_space xs =
     List.find (\<lambda>w. length w \<le> length xs \<and> drop (length xs - length w) xs = w) whitespace"

function lstrip :: "string \<Rightarrow> string" where
  "lstrip xs =
     (case leading_space xs of
        None \<Rightarrow> xs
      | Some w \<Rightarrow> lstrip (drop (length w) xs))"
  by pat_completeness auto
termination
proof (relation "measure length")
  show "wf (measure length)" by simp
next
  fix xs w
  assume "leading_space xs = Some w"
  then have w: "w \<in> set whitespace" and t: "take (length w) xs = w"
    by (auto simp: leading_space_def find_Some_iff in_set_conv_nth)
  from w have n: "w \<noteq> []" by (auto simp: whitespace_def)
  from t have l: "length w \<le> length xs"
    by (auto simp: min_def dest: arg_cong [where f = length] split: if_splits)
  from n l show "(drop (length w) xs, xs) \<in> measure length" by (cases w) simp_all
qed

function rstrip :: "string \<Rightarrow> string" where
  "rstrip xs =
     (case trailing_space xs of
        None \<Rightarrow> xs
      | Some w \<Rightarrow> rstrip (take (length xs - length w) xs))"
  by pat_completeness auto
termination
proof (relation "measure length")
  show "wf (measure length)" by simp
next
  fix xs w
  assume "trailing_space xs = Some w"
  then have w: "w \<in> set whitespace" and l: "length w \<le> length xs"
    by (auto simp: trailing_space_def find_Some_iff in_set_conv_nth)
  from w have n: "w \<noteq> []" by (auto simp: whitespace_def)
  from n l show "(take (length xs - length w) xs, xs) \<in> measure length"
    by (cases w) simp_all
qed

declare lstrip.simps [simp del]

declare rstrip.simps [simp del]

definition strip :: "string \<Rightarrow> string" where
  "strip xs = rstrip (lstrip xs)"

text \<open>
  The lowering of the ASCII letters. It is \<^verbatim>\<open>str.lower\<close> on ASCII text only, and it is
  used only to fill the field \<open>str_lower\<close> of the concrete states below, whose account
  names are ASCII.
\<close>

definition lower_char :: "char \<Rightarrow> char" where
  "lower_char c =
     (let n = (of_char c :: nat)
      in if 65 \<le> n \<and> n \<le> 90 then char_of (n + 32) else c)"

definition lower :: "string \<Rightarrow> string" where
  "lower xs = map lower_char xs"

text \<open>
  The module as it is right after import, at time \<open>t\<close>, facing the server \<open>srv\<close>, on a
  platform whose \<^verbatim>\<open>datetime.fromtimestamp\<close> accepts the years 1 to 9999 of UTC.
\<close>

definition startup :: "string \<Rightarrow> real \<Rightarrow> reply stream \<Rightarrow> state" where
  "startup name t srv =
     \<lparr>rate_limit_remaining = 5000, rate_limit_reset = 0,
      cache_data_following = [], cache_data_followers = [],
      cache_timestamp_following = 0, cache_timestamp_followers = 0,
      USERNAME = name,
      fromtimestamp_ok = (\<lambda>t. - 62135596800 \<le> t \<and> t \<le> 253402300799),
      str_lower = lower,
      now = t, server = srv, trace = []\<rparr>"

subsection \<open>Rate tracker and request executor\<close>

definition sleep :: "real \<Rightarrow> state \<Rightarrow> state" where
  "sleep d s = s\<lparr>now := now s + d, trace := trace s @ [Slept d]\<rparr>"

text \<open>
  \<open>update_rate_limit_info\<close>: lines 76 to 80 assign the two globals from the headers that
  are present, and \<^verbatim>\<open>int\<close> raises on a malformed one; line 83 then formats the global
  reset time, whether it was just assigned or not, and \<^verbatim>\<open>datetime.fromtimestamp\<close>
  raises when it is out of range. The result is the exception raised, if any, and the
  state with the assignments made until then.
\<close>

definition update_rate_limit_info :: "response \<Rightarrow> state \<Rightarrow> error option \<times> state" where
  "update_rate_limit_info response s =
     (case x_ratelimit_remaining response of
        Malformed \<Rightarrow> (Some ValueError, s)
      | h \<Rightarrow>
          (let s1 = (case h of Header n \<Rightarrow> s\<lparr>rate_limit_remaining := n\<rparr> | _ \<Rightarrow> s)
           in case x_ratelimit_reset response of
                Malformed \<Rightarrow> (Some ValueError, s1)
              | h' \<Rightarrow>
                  (let s2 = (case h' of Header r \<Rightarrow> s1\<lparr>rate_limit_reset := r\<rparr> | _ \<Rightarrow> s1)
                   in if fromtimestamp_ok s2 (rate_limit_reset s2) then (None, s2)
                      else (Some ValueError, s2))))"

definition calculate_adaptive_delay :: "state \<Rightarrow> real" where
  "calculate_adaptive_delay s =
     (if rate_limit_remaining s \<le> MIN_RATE_LIMIT_THRESHOLD then 2.0
      else if rate_limit_remaining s \<le> 1000 then 1.0
      else 0.2)"

text \<open>
  \<open>make_api_request\<close>: sleep the adaptive delay, send, update the quota from the headers
  of whatever response came, then classify it. Only a \<^verbatim>\<open>RequestException\<close> is caught
  (lines 133 to 135) and turned into a \<^verbatim>\<open>GitHubAPIError\<close> of status 0: a transport
  failure, and the decoding error of an error body that is not JSON. What
  \<open>update_rate_limit_info\<close> raises leaves the function as it is, before the status is
  looked at. The three call sites pass the methods \<^verbatim>\<open>'GET'\<close>, \<^verbatim>\<open>'DELETE'\<close> and
  \<^verbatim>\<open>'PUT'\<close> only, so the branch for an unsupported method has no counterpart here.
\<close>

definition make_api_request ::
  "http_method \<Rightarrow> url \<Rightarrow> params option \<Rightarrow> state \<Rightarrow> response result \<times> state" where
  "make_api_request method url ps s =
     (let delay = calculate_adaptive_delay s;
          s1 = sleep delay s;
          s2 = s1\<lparr>server := stl (server s1), trace := trace s1 @ [Sent method url ps]\<rparr>
      in case shd (server s1) of
           Transport msg \<Rightarrow> (Raise (GitHubAPIError 0 msg url), s2)
         | Http response \<Rightarrow>
             (case update_rate_limit_info response s2 of
                (Some e, s3) \<Rightarrow> (Raise e, s3)
              | (None, s3) \<Rightarrow>
                  if status_code response = 429
                  then (let reset_time =
                              (case x_ratelimit_reset response of Header r \<Rightarrow> r | _ \<Rightarrow> 0)
                        in (Raise (RateLimitExceededError reset_time url), s3))
                  else if status_code response \<ge> 400
                       then (if method = DELETE \<and> status_code response = 404
                             then (Return response, s3)
                             else (case error_body response of
                                     NoBody \<Rightarrow>
                                       (Raise (GitHubAPIError (status_code response)
                                                 ''No response body'' url), s3)
                                   | JsonObject None \<Rightarrow>
                                       (Raise (GitHubAPIError (status_code response)
                                                 ''Unknown error'' url), s3)
                                   | JsonObject (Some error_message) \<Rightarrow>
                                       (Raise (GitHubAPIError (status_code response)
                                                 error_message url), s3)
                                   | JsonOther \<Rightarrow> (Raise AttributeError, s3)
                                   | NotJson e \<Rightarrow> (Raise (GitHubAPIError 0 e url), s3)))
                       else (Return response, s3)))"

subsection \<open>Paginator\<close>

text \<open>
  The \<^verbatim>\<open>while current_url:\<close> loop of \<open>get_paginated\<close>, with its three loop variables.
  \<open>page_count\<close> is incremented before every request, also before a retry, and the
  parameters are passed only while it is 1. A status below 400 other than 200 is only
  printed (\<^verbatim>\<open>raise_for_status\<close> does not raise below 400), then the body is decoded.
\<close>

definition page_params :: "nat \<Rightarrow> params \<Rightarrow> params option" where
  "page_params page_count ps = (if page_count = 1 then Some ps else None)"

partial_function (option) get_paginated_loop ::
  "url \<Rightarrow> nat \<Rightarrow> user list \<Rightarrow> params \<Rightarrow> state \<Rightarrow> (user list result \<times> state) option" where
  "get_paginated_loop current_url page_count results ps s =
     (if current_url = [] then Some (Return results, s)
      else
        (case make_api_request GET current_url (page_params (Suc page_count) ps) s of
           (Raise e, s1) \<Rightarrow>
             (case e of
                RateLimitExceededError reset_time u \<Rightarrow>
                  (let wait_time = real_of_int reset_time - now s1 + 5
                   in get_paginated_loop current_url (Suc page_count) results ps
                        (sleep (max 1 wait_time) s1))
              | _ \<Rightarrow> Some (Raise e, s1))
         | (Return response, s1) \<Rightarrow>
             (case users response of
                None \<Rightarrow> Some (Raise JSONDecodeError, s1)
              | Some data \<Rightarrow>
                  (case next_url response of
                     None \<Rightarrow> Some (Return (results @ data), s1)
                   | Some next \<Rightarrow>
                       get_paginated_loop next (Suc page_count) (results @ data) ps s1))))"

definition get_paginated :: "url \<Rightarrow> state \<Rightarrow> (user list result \<times> state) option" where
  "get_paginated url s = get_paginated_loop url 0 [] [(''per_page'', 100)] s"

subsection \<open>Relationship cache\<close>

text \<open>
  \<open>get_following\<close> and \<open>get_followers\<close>. A cached list is used when the call is not
  forced, the list is truthy (not empty) and younger than \<open>CACHE_TIMEOUT\<close>. An
  exception of the fetch is swallowed when the cached list is truthy, and raised again
  otherwise.
\<close>

definition get_following :: "bool \<Rightarrow> state \<Rightarrow> (string list result \<times> state) option" where
  "get_following force_refresh s =
     (let current_time = now s
      in if \<not> force_refresh \<and> cache_data_following s \<noteq> []
            \<and> current_time - cache_timestamp_following s < CACHE_TIMEOUT
         then Some (Return (cache_data_following s), s)
         else
           (case get_paginated (BASE_URL @ ''/user/following'') s of
              None \<Rightarrow> None
            | Some (Return following_data, s1) \<Rightarrow>
                (let following_list = map (\<lambda>user. strip (login user)) following_data
                 in Some (Return following_list,
                      s1\<lparr>cache_data_following := following_list,
                         cache_timestamp_following := current_time\<rparr>))
            | Some (Raise e, s1) \<Rightarrow>
                (if cache_data_following s1 \<noteq> []
                 then Some (Return (cache_data_following s1), s1)
                 else Some (Raise e, s1))))"

definition get_followers :: "bool \<Rightarrow> state \<Rightarrow> (string list result \<times> state) option" where
  "get_followers force_refresh s =
     (let current_time = now s
      in if \<not> force_refresh \<and> cache_data_followers s \<noteq> []
            \<and> current_time - cache_timestamp_followers s < CACHE_TIMEOUT
         then Some (Return (cache_data_followers s), s)
         else
           (case get_paginated (BASE_URL @ ''/user/followers'') s of
              None \<Rightarrow> None
            | Some (Return followers_data, s1) \<Rightarrow>
                (let followers_list = map (\<lambda>user. strip (login user)) followers_data
                 in Some (Return followers_list,
                      s1\<lparr>cache_data_followers := followers_list,
                         cache_timestamp_followers := current_time\<rparr>))
            | Some (Raise e, s1) \<Rightarrow>
                (if cache_data_followers s1 \<noteq> []
                 then Some (Return (cache_data_followers s1), s1)
                 else Some (Raise e, s1))))"

subsection \<open>Graph operations\<close>

text \<open>\<open>get_user_info\<close> turns every exception into \<^verbatim>\<open>None\<close>.\<close>

definition get_user_info :: "string \<Rightarrow> state \<Rightarrow> string option \<times> state" where
  "get_user_info username s =
     (case make_api_request GET (BASE_URL @ ''/users/'' @ username) None s of
        (Return response, s1) \<Rightarrow>
          (if status_code response = 200 then (profile response, s1) else (None, s1))
      | (Raise e, s1) \<Rightarrow> (None, s1))"

definition unfollow_user :: "string \<Rightarrow> state \<Rightarrow> bool \<times> state" where
  "unfollow_user username0 s =
     (let username = strip username0
      in if username = [] then (False, s)
         else
           (let unfollow_url = BASE_URL @ ''/user/following/'' @ username
            in case make_api_request DELETE unfollow_url None s of
                 (Return response, s1) \<Rightarrow>
                   (if status_code response = 204 then (True, s1)
                    else if status_code response = 404 then (True, s1)
                    else (False, s1))
               | (Raise e, s1) \<Rightarrow>
                   (if is_GitHubAPIError e
                    then (if error_status_code e = 404 then (True, s1) else (False, s1))
                    else (False, s1))))"

definition follow_user :: "string \<Rightarrow> state \<Rightarrow> (bool \<times> state) option" where
  "follow_user username0 s =
     (let username = strip (str_lower s username0)
      in case get_following False s of
           None \<Rightarrow> None
         | Some (Raise e, s1) \<Rightarrow> Some (False, s1)
         | Some (Return following, s1) \<Rightarrow>
             (if username \<in> set following then Some (True, s1)
              else
                (let url = BASE_URL @ ''/user/following/'' @ username
                 in case make_api_request PUT url None s1 of
                      (Return response, s2) \<Rightarrow>
                        (if status_code response = 204
                         then Some (True, s2\<lparr>cache_timestamp_following := 0\<rparr>)
                         else Some (False, s2))
                    | (Raise e, s2) \<Rightarrow> Some (False, s2))))"

text \<open>
  Step 3 of \<open>get_account_stats\<close>: the three derived sets, in the order in which the
  function returns them (non-mutuals, not following back, mutuals). The function hands
  them out as \<^verbatim>\<open>list(set)\<close>, whose order Python does not fix; they are kept as sets
  here, and a caller that iterates over one takes the enumeration as a parameter. Line
  383 formats the global reset time for the statistics; when
  \<^verbatim>\<open>datetime.fromtimestamp\<close> raises there, the handler of the function returns the
  error and three empty lists. The statistics keep the time stamp itself.
\<close>

definition relationships ::
  "string list \<Rightarrow> string list \<Rightarrow> string set \<times> string set \<times> string set" where
  "relationships following followers =
     (let following_set = set following;
          followers_set = set followers;
          mutuals = following_set \<inter> followers_set;
          non_mutuals = following_set - followers_set;
          not_following_back = followers_set - following_set
      in (non_mutuals, not_following_back, mutuals))"

record stats =
  total_following :: nat
  total_followers :: nat
  stats_mutuals :: nat
  stats_non_mutuals :: nat
  stats_not_following_back :: nat
  profile_info :: "string option"
  rate_limit :: "int \<times> int"

datatype stats_dict = Stats stats | Error error

definition get_account_stats ::
  "bool \<Rightarrow> state \<Rightarrow>
   ((stats_dict \<times> string set \<times> string set \<times> string set) \<times> state) option" where
  "get_account_stats force_refresh s =
     (case get_following force_refresh s of
        None \<Rightarrow> None
      | Some (Raise e, s1) \<Rightarrow> Some ((Error e, {}, {}, {}), s1)
      | Some (Return following, s1) \<Rightarrow>
          (case get_followers force_refresh s1 of
             None \<Rightarrow> None
           | Some (Raise e, s2) \<Rightarrow> Some ((Error e, {}, {}, {}), s2)
           | Some (Return followers, s2) \<Rightarrow>
               (case relationships following followers of
                  (non_mutuals, not_following_back, mutuals) \<Rightarrow>
                    (case get_user_info (USERNAME s2) s2 of
                       (user_info, s3) \<Rightarrow>
                         if \<not> fromtimestamp_ok s3 (rate_limit_reset s3)
                         then Some ((Error ValueError, {}, {}, {}), s3)
                         else
                         Some ((Stats \<lparr>total_following = length following,
                                       total_followers = length followers,
                                       stats_mutuals = card mutuals,
                                       stats_non_mutuals = card non_mutuals,
                                       stats_not_following_back = card not_following_back,
                                       profile_info = user_info,
                                       rate_limit = (rate_limit_remaining s3,
                                                     rate_limit_reset s3)\<rparr>,
                                non_mutuals, not_following_back, mutuals), s3)))))"

subsection \<open>Bulk orchestrator\<close>

text \<open>
  Text of the summaries. The marks are the UTF-8 bytes of U+2705, U+274C, U+1F525 and
  U+1F465; \<open>str_nat\<close> is \<^verbatim>\<open>str\<close> on a natural number; \<open>join\<close> is \<^verbatim>\<open>sep.join\<close>;
  \<open>split\<close> is \<^verbatim>\<open>str.split\<close> with a one-character separator.
\<close>

definition ok_mark :: string where
  "ok_mark = [CHR 0xE2, CHR 0x9C, CHR 0x85]"

definition fail_mark :: string where
  "fail_mark = [CHR 0xE2, CHR 0x9D, CHR 0x8C]"

definition fire_mark :: string where
  "fire_mark = [CHR 0xF0, CHR 0x9F, CHR 0x94, CHR 0xA5]"

definition people_mark :: string where
  "people_mark = [CHR 0xF0, CHR 0x9F, CHR 0x91, CHR 0xA5]"

fun str_nat :: "nat \<Rightarrow> string" where
  "str_nat n =
     (if n < 10 then [char_of (48 + n)]
      else str_nat (n div 10) @ [char_of (48 + n mod 10)])"

fun join :: "string \<Rightarrow> string list \<Rightarrow> string" where
  "join sep [] = []"
| "join sep [x] = x"
| "join sep (x # y # ys) = x @ sep @ join sep (y # ys)"

fun split :: "char \<Rightarrow> string \<Rightarrow> string list" where
  "split sep [] = [[]]"
| "split sep (c # cs) =
     (if c = sep then [] # split sep cs
      else (case split sep cs of
              w # ws \<Rightarrow> (c # w) # ws
            | [] \<Rightarrow> [[c]]))"

text \<open>The value that a bulk entry point hands to the interface: a text, or the text
  \<^verbatim>\<open>"Error: " + str(e)\<close> that it makes of a caught exception \<open>e\<close>.\<close>

datatype report = Text string | Failed error

text \<open>Lines 557 to 565: every tenth item and at the last one, when the quota is below the
  threshold, pause until the reset, 30 seconds at most.\<close>

definition progress_pause :: "nat \<Rightarrow> nat \<Rightarrow> state \<Rightarrow> state" where
  "progress_pause i n s =
     (if i mod 10 = 0 \<or> i = n
      then (if rate_limit_remaining s < MIN_RATE_LIMIT_THRESHOLD
            then (let wait_time = min 30 (real_of_int (rate_limit_reset s) - now s)
                  in if wait_time > 0 then sleep wait_time s else s)
            else s)
      else s)"

definition unfollow_line :: "nat \<Rightarrow> nat \<Rightarrow> string \<Rightarrow> bool \<Rightarrow> string" where
  "unfollow_line i n user success =
     (if success
      then ok_mark @ '' ['' @ str_nat i @ ''/'' @ str_nat n @ ''] Unfollowed @'' @ user
      else fail_mark @ '' ['' @ str_nat i @ ''/'' @ str_nat n @ ''] Failed to unfollow @'' @ user)"

text \<open>The \<^verbatim>\<open>for i, user in enumerate(filtered_non_mutuals, 1)\<close> loop of
  \<open>execute_full_unfollow\<close>; \<open>n\<close> is \<^verbatim>\<open>len(filtered_non_mutuals)\<close>.\<close>

fun execute_full_unfollow_loop ::
  "nat \<Rightarrow> nat \<Rightarrow> string list \<Rightarrow> nat \<Rightarrow> string list \<Rightarrow> state \<Rightarrow> nat \<times> string list \<times> state" where
  "execute_full_unfollow_loop i n [] successful_unfollows results s =
     (successful_unfollows, results, s)"
| "execute_full_unfollow_loop i n (user # rest) successful_unfollows results s =
     (case unfollow_user user s of
        (success, s1) \<Rightarrow>
          (let s2 = progress_pause i n s1;
               s3 = sleep (calculate_adaptive_delay s2) s2
           in execute_full_unfollow_loop (Suc i) n rest
                (if success then Suc successful_unfollows else successful_unfollows)
                (results @ [unfollow_line i n user success]) s3))"

definition unfollow_summary :: "nat \<Rightarrow> nat \<Rightarrow> string list \<Rightarrow> string" where
  "unfollow_summary successful_unfollows n results =
     fire_mark @ '' Mass Unfollow Complete!'' @ [CHR 0x0A]
     @ ''Successfully unfollowed '' @ str_nat successful_unfollows @ ''/'' @ str_nat n
     @ '' users'' @ [CHR 0x0A, CHR 0x0A]
     @ join [CHR 0x0A] results"

text \<open>\<open>execute_full_unfollow\<close>; \<open>order\<close> is the order in which Python enumerates the
  set of non-mutuals. Every exception is caught and reported as a text.\<close>

definition execute_full_unfollow ::
  "(string set \<Rightarrow> string list) \<Rightarrow> state \<Rightarrow> (report \<times> state) option" where
  "execute_full_unfollow order s =
     (case get_account_stats False s of
        None \<Rightarrow> None
      | Some ((Error e, non_mutuals, nfb, m), s1) \<Rightarrow> Some (Failed e, s1)
      | Some ((Stats st, non_mutuals, nfb, m), s1) \<Rightarrow>
          (let filtered_non_mutuals = order non_mutuals
           in if filtered_non_mutuals = []
              then Some (Text (ok_mark
                     @ '' Great! Everyone you follow also follows you back!''), s1)
              else
                (case execute_full_unfollow_loop 1 (length filtered_non_mutuals)
                        filtered_non_mutuals 0 [] s1 of
                   (successful_unfollows, results, s2) \<Rightarrow>
                     (let final_result = unfollow_summary successful_unfollows
                                           (length filtered_non_mutuals) results
                      in if successful_unfollows > 0
                         then (case get_following True s2 of
                                 None \<Rightarrow> None
                               | Some (Raise e, s3) \<Rightarrow> Some (Failed e, s3)
                               | Some (Return new_following, s3) \<Rightarrow>
                                   Some (Text final_result, s3))
                         else Some (Text final_result, s2)))))"

definition follow_line :: "string \<Rightarrow> bool \<Rightarrow> string" where
  "follow_line username success =
     (if success then ok_mark @ '' Followed @'' @ username
      else fail_mark @ '' Failed to follow @'' @ username)"

text \<open>The \<^verbatim>\<open>for i, username in enumerate(user_list, 1)\<close> loop of
  \<open>follow_selected_users\<close>; the index is only printed.\<close>

fun follow_selected_users_loop ::
  "string list \<Rightarrow> nat \<Rightarrow> string list \<Rightarrow> state \<Rightarrow> (nat \<times> string list \<times> state) option" where
  "follow_selected_users_loop [] successful_follows results s =
     Some (successful_follows, results, s)"
| "follow_selected_users_loop (username # rest) successful_follows results s =
     (case follow_user username s of
        None \<Rightarrow> None
      | Some (success, s1) \<Rightarrow>
          follow_selected_users_loop rest
            (if success then Suc successful_follows else successful_follows)
            (results @ [follow_line username success])
            (sleep (calculate_adaptive_delay s1) s1))"

definition follow_summary :: "nat \<Rightarrow> nat \<Rightarrow> string list \<Rightarrow> string" where
  "follow_summary successful_follows n results =
     people_mark @ '' Follow Operation Complete'' @ [CHR 0x0A]
     @ ''Successfully followed '' @ str_nat successful_follows @ ''/'' @ str_nat n
     @ '' users'' @ [CHR 0x0A, CHR 0x0A]
     @ join [CHR 0x0A] results"

text \<open>\<open>follow_selected_users\<close> has no handler of its own: an exception of the final
  refresh leaves the function.\<close>

definition follow_selected_users :: "string \<Rightarrow> state \<Rightarrow> (string result \<times> state) option" where
  "follow_selected_users usernames s =
     (if usernames = [] \<or> strip usernames = []
      then Some (Return (fail_mark @ '' No usernames provided''), s)
      else
        (let user_list = map strip (filter (\<lambda>u. strip u \<noteq> []) (split CHR '','' usernames))
         in if user_list = []
            then Some (Return (fail_mark @ '' No valid usernames found''), s)
            else
              (case follow_selected_users_loop user_list 0 [] s of
                 None \<Rightarrow> None
               | Some (successful_follows, results, s1) \<Rightarrow>
                   (let summary = follow_summary successful_follows (length user_list) results
                    in if successful_follows > 0
                       then (case get_following True s1 of
                               None \<Rightarrow> None
                             | Some (Raise e, s2) \<Rightarrow> Some (Raise e, s2)
                             | Some (Return new_following, s2) \<Rightarrow>
                                 Some (Return summary, s2))
                       else Some (Return summary, s1)))))"

subsection \<open>Vocabulary of the theorems\<close>

text \<open>The requests of a trace, in the order in which they were sent.\<close>

fun requests :: "event list \<Rightarrow> (http_method \<times> url) list" where
  "requests [] = []"
| "requests (Slept d # es) = requests es"
| "requests (Sent m u ps # es) = (m, u) # requests es"

text \<open>Two states with the same cache entries, configuration and platform.\<close>

definition same_cache :: "state \<Rightarrow> state \<Rightarrow> bool" where
  "same_cache s s' =
     (cache_data_following s' = cache_data_following s \<and>
      cache_data_followers s' = cache_data_followers s \<and>
      cache_timestamp_following s' = cache_timestamp_following s \<and>
      cache_timestamp_followers s' = cache_timestamp_followers s \<and>
      USERNAME s' = USERNAME s \<and>
      fromtimestamp_ok s' = fromtimestamp_ok s \<and>
      str_lower s' = str_lower s)"

text \<open>
  Quota headers that do not make \<open>update_rate_limit_info\<close> raise: both parse, and a
  reset time, if there is one, is a time stamp that the platform accepts. \<open>quota_ok s\<close>
  says the same of the reset time that the state \<open>s\<close> holds.
\<close>

definition headers_ok :: "(int \<Rightarrow> bool) \<Rightarrow> response \<Rightarrow> bool" where
  "headers_ok ok r =
     (x_ratelimit_remaining r \<noteq> Malformed \<and>
      (case x_ratelimit_reset r of Missing \<Rightarrow> True | Header t \<Rightarrow> ok t | Malformed \<Rightarrow> False))"

definition quota_ok :: "state \<Rightarrow> bool" where
  "quota_ok s = fromtimestamp_ok s (rate_limit_reset s)"

definition reply_ok :: "(int \<Rightarrow> bool) \<Rightarrow> reply \<Rightarrow> bool" where
  "reply_ok ok y = (case y of Http r \<Rightarrow> headers_ok ok r | Transport msg \<Rightarrow> True)"



text \<open>The state right after \<open>make_api_request\<close> has slept and sent its request, before
  the quota headers of the answer are read.\<close>

definition sent_state :: "http_method \<Rightarrow> url \<Rightarrow> params option \<Rightarrow> state \<Rightarrow> state" where
  "sent_state m u ps s =
     s\<lparr>now := now s + calculate_adaptive_delay s, server := stl (server s),
       trace := trace s @ [Slept (calculate_adaptive_delay s), Sent m u ps]\<rparr>"








text \<open>Responses for concrete runs.\<close>

definition status_response :: "int \<Rightarrow> response" where
  "status_response c =
     \<lparr>status_code = c, x_ratelimit_remaining = Missing, x_ratelimit_reset = Missing,
      users = None, profile = None, error_body = NoBody, next_url = None\<rparr>"

definition users_response :: "string list \<Rightarrow> url option \<Rightarrow> response" where
  "users_response names nxt =
     \<lparr>status_code = 200, x_ratelimit_remaining = Missing, x_ratelimit_reset = Missing,
      users = Some (map User names), profile = None, error_body = NoBody, next_url = nxt\<rparr>"

text \<open>A server whose network is down from the first request on.\<close>

definition offline :: "reply stream" where
  "offline = sconst (Transport ''connection refused'')"



text \<open>
  Concrete states. \<open>warm_cache\<close> holds two lists cached 100 seconds ago; \<open>stale_cache\<close>
  holds two lists cached 300 seconds ago; \<open>nobody_start\<close> is the module after import, in
  front of a server that first serves an empty following list, and \<open>nobody_cached\<close> is
  the state in which the first read of that list leaves it; \<open>after_refused\<close> is a state
  after one request that failed in transport.
\<close>

definition warm_cache :: state where
  "warm_cache =
     (startup ''me'' 1000 offline)
       \<lparr>cache_data_following := [''a'', ''b'', ''c''],
        cache_data_followers := [''b'', ''c'', ''d''],
        cache_timestamp_following := 900, cache_timestamp_followers := 900\<rparr>"

definition stale_cache :: "reply stream \<Rightarrow> state" where
  "stale_cache srv =
     (startup ''me'' 1000 srv)
       \<lparr>cache_data_following := [''x''], cache_data_followers := [''y''],
        cache_timestamp_following := 700, cache_timestamp_followers := 700\<rparr>"

definition nobody_start :: "reply stream \<Rightarrow> state" where
  "nobody_start srv = startup ''me'' 1000 (Http (users_response [] None) ## srv)"

definition nobody_cached :: "reply stream \<Rightarrow> state" where
  "nobody_cached srv =
     (startup ''me'' 1000 srv)
       \<lparr>cache_timestamp_following := 1000, now := 1000.2,
        trace := [Slept 0.2, Sent GET ''https://api.github.com/user/following''
                               (Some [(''per_page'', 100)])]\<rparr>"

definition after_refused :: "url \<Rightarrow> state \<Rightarrow> state" where
  "after_refused u s =
     s\<lparr>now := now s + 0.2, server := stl (server s),
       trace := trace s @ [Slept 0.2, Sent GET u (Some [(''per_page'', 100)])]\<rparr>"

text \<open>A 429 response that announces the reset time \<open>t\<close>, and the module after
  import in front of a server that answers 429 once and then serves a one-page list.\<close>

definition throttled_until :: "int \<Rightarrow> response" where
  "throttled_until t = (status_response 429)\<lparr>x_ratelimit_reset := Header t\<rparr>"

definition throttled_start :: state where
  "throttled_start =
     startup ''me'' 1000
       (Http (throttled_until 1060) ## Http (users_response [''a''] None) ## offline)"

text \<open>
  Concrete bulk runs. \<open>five_cached\<close>: five accounts followed, none of them a follower;
  the server answers the profile request with 404, then the five DELETEs with 204, 500,
  204, 403 and 204, then serves the refreshed following list. \<open>cold_follow\<close>: the module
  after import, in front of a server that serves an empty following list, answers 204
  to one PUT and is down from then on.
\<close>

definition five_users :: "string list" where
  "five_users = [''u1'', ''u2'', ''u3'', ''u4'', ''u5'']"

definition five_cached :: state where
  "five_cached =
     (startup ''me'' 1000
        (Http (status_response 404)
         ## Http (status_response 204) ## Http (status_response 500)
         ## Http (status_response 204) ## Http (status_response 403)
         ## Http (status_response 204)
         ## Http (users_response [''u2'', ''u4''] None) ## offline))
       \<lparr>cache_data_following := five_users, cache_data_followers := [''x''],
        cache_timestamp_following := 900, cache_timestamp_followers := 900\<rparr>"

definition cold_follow :: state where
  "cold_follow =
     startup ''me'' 1000
       (Http (users_response [] None) ## Http (status_response 204) ## offline)"

section \<open>Lemmas on the request executor and the paginator\<close>

lemma same_cache_refl: "same_cache s s"
  by (simp add: same_cache_def)

lemma same_cache_trans: "same_cache s s1 \<Longrightarrow> same_cache s1 s2 \<Longrightarrow> same_cache s s2"
  by (simp add: same_cache_def)

lemma same_cache_sleep: "same_cache s (sleep d s)"
  by (simp add: same_cache_def sleep_def)

lemma update_rate_limit_info_frame:
  "same_cache s (snd (update_rate_limit_info r s))"
  "trace (snd (update_rate_limit_info r s)) = trace s"
  "server (snd (update_rate_limit_info r s)) = server s"
  "now (snd (update_rate_limit_info r s)) = now s"
  by (simp_all add: update_rate_limit_info_def same_cache_def Let_def split: header.splits)

lemma update_rate_limit_info_ok:
  assumes "quota_ok s" and "headers_ok (fromtimestamp_ok s) r"
  shows "fst (update_rate_limit_info r s) = None"
    and "quota_ok (snd (update_rate_limit_info r s))"
  using assms
  by (auto simp: update_rate_limit_info_def quota_ok_def headers_ok_def Let_def
           split: header.splits)

lemma make_api_request_snd:
  "snd (make_api_request m u ps s) =
     (case shd (server s) of
        Transport msg \<Rightarrow> sent_state m u ps s
      | Http resp \<Rightarrow> snd (update_rate_limit_info resp (sent_state m u ps s)))"
  by (simp add: make_api_request_def sent_state_def Let_def sleep_def
           split: reply.split prod.split option.split error_body.split)

lemma sent_state_frame:
  "same_cache s (sent_state m u ps s)"
  "trace (sent_state m u ps s) = trace s @ [Slept (calculate_adaptive_delay s), Sent m u ps]"
  "server (sent_state m u ps s) = stl (server s)"
  "now (sent_state m u ps s) = now s + calculate_adaptive_delay s"
  "quota_ok (sent_state m u ps s) = quota_ok s"
  "fromtimestamp_ok (sent_state m u ps s) = fromtimestamp_ok s"
  by (simp_all add: sent_state_def same_cache_def quota_ok_def)

lemma make_api_request_same_cache:
  "same_cache s (snd (make_api_request m u ps s))"
  by (cases "shd (server s)")
     (auto simp: make_api_request_snd sent_state_frame
           intro: same_cache_trans [OF sent_state_frame(1) update_rate_limit_info_frame(1)])

lemma make_api_request_trace:
  "trace (snd (make_api_request m u ps s)) =
     trace s @ [Slept (calculate_adaptive_delay s), Sent m u ps]"
  by (cases "shd (server s)")
     (simp_all add: make_api_request_snd sent_state_frame update_rate_limit_info_frame)

lemma make_api_request_server:
  "server (snd (make_api_request m u ps s)) = stl (server s)"
  by (cases "shd (server s)")
     (simp_all add: make_api_request_snd sent_state_frame update_rate_limit_info_frame)

lemma make_api_request_now:
  "now (snd (make_api_request m u ps s)) = now s + calculate_adaptive_delay s"
  by (cases "shd (server s)")
     (simp_all add: make_api_request_snd sent_state_frame update_rate_limit_info_frame)

lemma make_api_request_frame:
  assumes "make_api_request m u ps s = (r, s')"
  shows "same_cache s s'"
    and "trace s' = trace s @ [Slept (calculate_adaptive_delay s), Sent m u ps]"
    and "server s' = stl (server s)"
    and "now s' = now s + calculate_adaptive_delay s"
  using make_api_request_same_cache [of s m u ps] make_api_request_trace [of m u ps s]
    make_api_request_server [of m u ps s] make_api_request_now [of m u ps s] assms
  by simp_all



lemma make_api_request_quota_ok:
  assumes "quota_ok s" and "reply_ok (fromtimestamp_ok s) (shd (server s))"
  shows "quota_ok (snd (make_api_request m u ps s))"
  using assms update_rate_limit_info_ok(2) [of "sent_state m u ps s"]
  by (cases "shd (server s)")
     (simp_all add: make_api_request_snd sent_state_frame reply_ok_def)







lemma get_paginated_loop_frame:
  assumes "get_paginated_loop u pc res ps s = Some y"
  shows "same_cache s (snd y) \<and> (\<exists>es. trace (snd y) = trace s @ es)
         \<and> (\<forall>e. fst y = Raise e \<longrightarrow> \<not> is_RateLimitExceededError e)"
proof (rule get_paginated_loop.raw_induct
    [where P = "\<lambda>u pc res ps s y. same_cache s (snd y) \<and> (\<exists>es. trace (snd y) = trace s @ es)
         \<and> (\<forall>e. fst y = Raise e \<longrightarrow> \<not> is_RateLimitExceededError e)", OF _ assms], goal_cases)
  case (1 loop u pc res ps s y)
  show ?case
  proof (cases "u = []")
    case True
    with 1(2) show ?thesis by (auto simp: same_cache_refl)
  next
    case False
    obtain x s1 where m: "make_api_request GET u (page_params (Suc pc) ps) s = (x, s1)"
      by (cases "make_api_request GET u (page_params (Suc pc) ps) s")
    note fr = make_api_request_frame [OF m]
    show ?thesis
    proof (cases x)
      case (Return response)
      show ?thesis
      proof (cases "users response")
        case None
        with 1(2) False m Return fr show ?thesis by auto
      next
        case (Some data)
        show ?thesis
        proof (cases "next_url response")
          case None
          with 1(2) False m Return Some fr show ?thesis by auto
        next
          case (Some nxt)
          with 1(2) False m Return \<open>users response = Some data\<close>
          have "loop nxt (Suc pc) (res @ data) ps s1 = Some y" by simp
          from 1(1) [OF this] obtain es where
            ih: "same_cache s1 (snd y)" "trace (snd y) = trace s1 @ es"
                "\<forall>e. fst y = Raise e \<longrightarrow> \<not> is_RateLimitExceededError e"
            by blast
          have "same_cache s (snd y)" using fr(1) ih(1) by (rule same_cache_trans)
          moreover have "\<exists>es'. trace (snd y) = trace s @ es'" using fr(2) ih(2) by simp
          ultimately show ?thesis using ih(3) by blast
        qed
      qed
    next
      case (Raise e)
      show ?thesis
      proof (cases "is_RateLimitExceededError e")
        case True
        then obtain reset_time u' where e: "e = RateLimitExceededError reset_time u'"
          by (cases e) simp_all
        with 1(2) False m Raise
        have "loop u (Suc pc) res ps (sleep (max 1 (real_of_int reset_time - now s1 + 5)) s1) = Some y"
          by (simp add: Let_def)
        from 1(1) [OF this] obtain es where
          ih: "same_cache (sleep (max 1 (real_of_int reset_time - now s1 + 5)) s1) (snd y)"
              "trace (snd y) = trace (sleep (max 1 (real_of_int reset_time - now s1 + 5)) s1) @ es"
              "\<forall>e. fst y = Raise e \<longrightarrow> \<not> is_RateLimitExceededError e"
          by blast
        have "same_cache s (snd y)"
          using fr(1) same_cache_sleep ih(1) by (blast intro: same_cache_trans)
        moreover have "\<exists>es'. trace (snd y) = trace s @ es'"
          using fr(2) ih(2) by (simp add: sleep_def)
        ultimately show ?thesis using ih(3) by blast
      next
        case False
        with 1(2) \<open>u \<noteq> []\<close> m Raise have "y = (Raise e, s1)"
          by (cases e) simp_all
        with False fr show ?thesis by simp
      qed
    qed
  qed
qed




lemma get_paginated_frame:
  assumes "get_paginated u s = Some (r, s1)"
  shows "same_cache s s1" and "\<not> is_RateLimitExceededError e \<or> r \<noteq> Raise e"
  using get_paginated_loop_frame [of u 0 "[]" "[(''per_page'', 100)]" s "(r, s1)"] assms
  by (auto simp: get_paginated_def)

lemma get_paginated_first_request:
  assumes "get_paginated u s = Some (r, s')" and "u \<noteq> []"
  shows "\<exists>es. trace s' = trace s @ Slept (calculate_adaptive_delay s)
                  # Sent GET u (Some [(''per_page'', 100)]) # es"
proof -
  let ?ps = "[(''per_page'', 100)] :: params"
  obtain x s1 where m: "make_api_request GET u (page_params (Suc 0) ?ps) s = (x, s1)"
    by (cases "make_api_request GET u (page_params (Suc 0) ?ps) s")
  have tr: "trace s1 = trace s @ [Slept (calculate_adaptive_delay s), Sent GET u (Some ?ps)]"
    using make_api_request_frame(2) [OF m] by (simp add: page_params_def)
  have loop: "get_paginated_loop u 0 [] ?ps s = Some (r, s')"
    using assms(1) by (simp add: get_paginated_def)
  have ext: "\<exists>es. trace s' = trace s1 @ es"
  proof (cases x)
    case (Return response)
    show ?thesis
    proof (cases "users response")
      case None
      with loop assms(2) m Return show ?thesis
        by (subst (asm) get_paginated_loop.simps) simp
    next
      case (Some data)
      show ?thesis
      proof (cases "next_url response")
        case None
        with loop assms(2) m Return Some show ?thesis
          by (subst (asm) get_paginated_loop.simps) simp
      next
        case (Some nxt)
        with loop assms(2) m Return \<open>users response = Some data\<close>
        have "get_paginated_loop nxt (Suc 0) ([] @ data) ?ps s1 = Some (r, s')"
          by (subst (asm) get_paginated_loop.simps) simp
        from get_paginated_loop_frame [OF this] show ?thesis by simp
      qed
    qed
  next
    case (Raise e)
    show ?thesis
    proof (cases "is_RateLimitExceededError e")
      case True
      then obtain reset_time u' where e: "e = RateLimitExceededError reset_time u'"
        by (cases e) simp_all
      with loop assms(2) m Raise
      have "get_paginated_loop u (Suc 0) [] ?ps
              (sleep (max 1 (real_of_int reset_time - now s1 + 5)) s1) = Some (r, s')"
        by (subst (asm) get_paginated_loop.simps) (simp add: Let_def)
      from get_paginated_loop_frame [OF this] show ?thesis by (auto simp: sleep_def)
    next
      case False
      with loop assms(2) m Raise have "s' = s1"
        by (subst (asm) get_paginated_loop.simps) (cases e, simp_all)
      then show ?thesis by simp
    qed
  qed
  with tr show ?thesis by auto
qed

lemma BASE_URL_not_empty: "BASE_URL @ x \<noteq> []"
  by (simp add: BASE_URL_def)

lemma get_following_forced_request:
  assumes "get_following True s = Some (r, s')"
  shows "\<exists>es. trace s' = trace s @ Slept (calculate_adaptive_delay s)
            # Sent GET (BASE_URL @ ''/user/following'') (Some [(''per_page'', 100)]) # es"
proof -
  obtain x s1 where g: "get_paginated (BASE_URL @ ''/user/following'') s = Some (x, s1)"
    using assms by (auto simp: get_following_def Let_def split: option.splits)
  have "trace s' = trace s1"
    using assms g by (auto simp: get_following_def Let_def split: result.splits if_splits)
  with get_paginated_first_request [OF g BASE_URL_not_empty] show ?thesis by simp
qed

lemma get_followers_forced_request:
  assumes "get_followers True s = Some (r, s')"
  shows "\<exists>es. trace s' = trace s @ Slept (calculate_adaptive_delay s)
            # Sent GET (BASE_URL @ ''/user/followers'') (Some [(''per_page'', 100)]) # es"
proof -
  obtain x s1 where g: "get_paginated (BASE_URL @ ''/user/followers'') s = Some (x, s1)"
    using assms by (auto simp: get_followers_def Let_def split: option.splits)
  have "trace s' = trace s1"
    using assms g by (auto simp: get_followers_def Let_def split: result.splits if_splits)
  with get_paginated_first_request [OF g BASE_URL_not_empty] show ?thesis by simp
qed










lemma get_user_info_snd:
  "snd (get_user_info username s) =
     snd (make_api_request GET (BASE_URL @ ''/users/'' @ username) None s)"
  by (simp add: get_user_info_def split: prod.split result.split)



lemma relationships_sets:
  "relationships following followers =
     (set following - set followers, set followers - set following,
      set following \<inter> set followers)"
  by (simp add: relationships_def Let_def)

subsection \<open>Concrete runs\<close>

lemma strip_names:
  "strip ''a'' = ''a''" "strip ''b'' = ''b''" "strip ''c'' = ''c''" "strip ''y'' = ''y''"
  "strip ''z'' = ''z''" "strip ''bob'' = ''bob''" "strip ''alice'' = ''alice''"
  "strip ''u1'' = ''u1''" "strip ''u2'' = ''u2''" "strip ''u3'' = ''u3''"
  "strip ''u4'' = ''u4''" "strip ''u5'' = ''u5''"
  "strip (lower ''bob'') = ''bob''"
  "strip (lower ''alice'') = ''alice''" "strip (lower ''Alice'') = ''alice''"
  by code_simp+


lemma split_alice:
  "map strip (filter (\<lambda>u. strip u \<noteq> []) (split CHR '','' ''alice'')) = [''alice'']"
  by code_simp

lemma str_nat_digits:
  "str_nat 0 = ''0''" "str_nat 1 = ''1''" "str_nat 2 = ''2''" "str_nat 3 = ''3''"
  "str_nat 4 = ''4''" "str_nat 5 = ''5''" "str_nat (Suc 0) = ''1''"
  "str_nat (Suc (Suc 0)) = ''2''" "str_nat (Suc (Suc (Suc 0))) = ''3''"
  "str_nat (Suc (Suc (Suc (Suc 0)))) = ''4''" "str_nat (Suc (Suc (Suc (Suc (Suc 0))))) = ''5''"
  by code_simp+

lemmas run_defs = get_following_def get_followers_def get_paginated_def make_api_request_def
  calculate_adaptive_delay_def MIN_RATE_LIMIT_THRESHOLD_def sleep_def update_rate_limit_info_def
  page_params_def startup_def users_response_def status_response_def BASE_URL_def CACHE_TIMEOUT_def
  offline_def Let_def strip_names


lemmas err_defs = get_paginated_def make_api_request_def
  calculate_adaptive_delay_def MIN_RATE_LIMIT_THRESHOLD_def sleep_def
  page_params_def startup_def BASE_URL_def CACHE_TIMEOUT_def
  offline_def Let_def after_refused_def stale_cache_def

section \<open>Properties\<close>

subsection \<open>Adaptive delay\<close>

text \<open>
  C8. The delay is 2 seconds when the remaining quota is at most 100, 1 second when it is
  above 100 and at most 1000, and 0.2 seconds above 1000; at the thresholds 100 and 1000
  themselves the longer delay is taken, and the delay never increases when the remaining
  quota increases.
\<close>

theorem calculate_adaptive_delay_steps:
  "(rate_limit_remaining s \<le> 100 \<longrightarrow> calculate_adaptive_delay s = 2) \<and>
   (100 < rate_limit_remaining s \<and> rate_limit_remaining s \<le> 1000 \<longrightarrow>
      calculate_adaptive_delay s = 1) \<and>
   (1000 < rate_limit_remaining s \<longrightarrow> calculate_adaptive_delay s = 0.2) \<and>
   (rate_limit_remaining s \<le> rate_limit_remaining s' \<longrightarrow>
      calculate_adaptive_delay s' \<le> calculate_adaptive_delay s)"
  by (simp add: calculate_adaptive_delay_def MIN_RATE_LIMIT_THRESHOLD_def)

theorem calculate_adaptive_delay_steps_witness:
  "calculate_adaptive_delay ((startup ''me'' 0 offline)\<lparr>rate_limit_remaining := 100\<rparr>) = 2 \<and>
   calculate_adaptive_delay ((startup ''me'' 0 offline)\<lparr>rate_limit_remaining := 1000\<rparr>) = 1 \<and>
   calculate_adaptive_delay ((startup ''me'' 0 offline)\<lparr>rate_limit_remaining := 1001\<rparr>) = 0.2 \<and>
   calculate_adaptive_delay ((startup ''me'' 0 offline)\<lparr>rate_limit_remaining := 1000\<rparr>)
     \<le> calculate_adaptive_delay ((startup ''me'' 0 offline)\<lparr>rate_limit_remaining := 100\<rparr>)"
  using calculate_adaptive_delay_steps
          [of "(startup ''me'' 0 offline)\<lparr>rate_limit_remaining := 100\<rparr>"
              "(startup ''me'' 0 offline)\<lparr>rate_limit_remaining := 1000\<rparr>"]
        calculate_adaptive_delay_steps
          [of "(startup ''me'' 0 offline)\<lparr>rate_limit_remaining := 1000\<rparr>"
              "(startup ''me'' 0 offline)\<lparr>rate_limit_remaining := 1001\<rparr>"]
        calculate_adaptive_delay_steps
          [of "(startup ''me'' 0 offline)\<lparr>rate_limit_remaining := 1001\<rparr>"
              "(startup ''me'' 0 offline)\<lparr>rate_limit_remaining := 1001\<rparr>"]
  by (simp add: startup_def)

subsection \<open>Pagination\<close>

text \<open>
  C3. After a 429 the paginator does not send the request that failed. Right after
  import, in front of a server that answers 429 to the first request and then serves a
  one-page list, \<open>get_paginated\<close> returns the list after two requests to the same
  address; the first carries \<^verbatim>\<open>per_page=100\<close>, the retry carries no parameters,
  because the page counter is incremented before every request, also before a retry
  (lines 154 to 157).
\<close>

theorem get_paginated_retry_drops_params:
  "map_option fst (get_paginated ''https://api.github.com/user/following'' throttled_start)
     = Some (Return [User ''a''])
   \<and> map_option (trace \<circ> snd)
         (get_paginated ''https://api.github.com/user/following'' throttled_start)
       = Some [Slept 0.2, Sent GET ''https://api.github.com/user/following''
                            (Some [(''per_page'', 100)]),
               Slept 64.8,
               Slept 0.2, Sent GET ''https://api.github.com/user/following'' None]
   \<and> page_params 1 [(''per_page'', 100)] = Some [(''per_page'', 100)]
   \<and> page_params 2 [(''per_page'', 100)] = None"
  by (simp add: throttled_start_def throttled_until_def run_defs get_paginated_loop.simps)

subsection \<open>Relationship cache\<close>

text \<open>
  C10. An empty cached list is never a cache hit. When the stored list of a relation is
  empty, a read that is not forced is the forced read, whatever the time stamp of the
  entry; and every forced read that returns has first sent a request to the list
  endpoint. A list that is not empty and younger than the time to live is returned as
  it is, in an unchanged state, so without any request.
\<close>

theorem empty_cache_is_never_a_hit:
  "(cache_data_following s = [] \<longrightarrow> get_following False s = get_following True s) \<and>
   (cache_data_followers s = [] \<longrightarrow> get_followers False s = get_followers True s) \<and>
   (\<forall>r s'. get_following True s = Some (r, s') \<longrightarrow>
      (\<exists>es. trace s' = trace s @ Slept (calculate_adaptive_delay s)
          # Sent GET (BASE_URL @ ''/user/following'') (Some [(''per_page'', 100)]) # es)) \<and>
   (\<forall>r s'. get_followers True s = Some (r, s') \<longrightarrow>
      (\<exists>es. trace s' = trace s @ Slept (calculate_adaptive_delay s)
          # Sent GET (BASE_URL @ ''/user/followers'') (Some [(''per_page'', 100)]) # es)) \<and>
   (cache_data_following s \<noteq> [] \<and> now s - cache_timestamp_following s < CACHE_TIMEOUT \<longrightarrow>
      get_following False s = Some (Return (cache_data_following s), s)) \<and>
   (cache_data_followers s \<noteq> [] \<and> now s - cache_timestamp_followers s < CACHE_TIMEOUT \<longrightarrow>
      get_followers False s = Some (Return (cache_data_followers s), s))"
proof -
  have a: "cache_data_following s = [] \<longrightarrow> get_following False s = get_following True s"
    by (simp add: get_following_def)
  have b: "cache_data_followers s = [] \<longrightarrow> get_followers False s = get_followers True s"
    by (simp add: get_followers_def)
  have c: "cache_data_following s \<noteq> [] \<and> now s - cache_timestamp_following s < CACHE_TIMEOUT \<longrightarrow>
      get_following False s = Some (Return (cache_data_following s), s)"
    by (simp add: get_following_def)
  have d: "cache_data_followers s \<noteq> [] \<and> now s - cache_timestamp_followers s < CACHE_TIMEOUT \<longrightarrow>
      get_followers False s = Some (Return (cache_data_followers s), s)"
    by (simp add: get_followers_def)
  show ?thesis
    using a b c d get_following_forced_request get_followers_forced_request by blast
qed

theorem empty_cache_is_never_a_hit_witness:
  "cache_data_following (nobody_cached (Http (users_response [] None) ## offline)) = [] \<and>
   now (nobody_cached (Http (users_response [] None) ## offline))
     - cache_timestamp_following (nobody_cached (Http (users_response [] None) ## offline))
     < CACHE_TIMEOUT \<and>
   get_following False (nobody_cached (Http (users_response [] None) ## offline))
     = get_following True (nobody_cached (Http (users_response [] None) ## offline)) \<and>
   (\<exists>s'. get_following False (nobody_cached (Http (users_response [] None) ## offline))
           = Some (Return [], s') \<and>
         requests (trace s') =
           [(GET, ''https://api.github.com/user/following''),
            (GET, ''https://api.github.com/user/following'')]) \<and>
   cache_data_followers (startup ''me'' 1000 (Http (users_response [''y''] None) ## offline)) = [] \<and>
   (\<exists>s'. get_followers False (startup ''me'' 1000 (Http (users_response [''y''] None) ## offline))
           = Some (Return [''y''], s') \<and>
         trace s' = [Slept 0.2, Sent GET ''https://api.github.com/user/followers''
                                  (Some [(''per_page'', 100)])]) \<and>
   get_following False warm_cache = Some (Return [''a'', ''b'', ''c''], warm_cache) \<and>
   get_followers False warm_cache = Some (Return [''b'', ''c'', ''d''], warm_cache)"
proof -
  have y: "strip ''y'' = ''y''" by code_simp
  show ?thesis
    using empty_cache_is_never_a_hit [of "nobody_cached (Http (users_response [] None) ## offline)"]
      empty_cache_is_never_a_hit
        [of "startup ''me'' 1000 (Http (users_response [''y''] None) ## offline)"]
      empty_cache_is_never_a_hit [of warm_cache]
    by (simp add: nobody_cached_def warm_cache_def y get_following_def get_followers_def
          get_paginated_def make_api_request_def calculate_adaptive_delay_def
          MIN_RATE_LIMIT_THRESHOLD_def sleep_def update_rate_limit_info_def
          page_params_def startup_def users_response_def BASE_URL_def CACHE_TIMEOUT_def
          offline_def Let_def get_paginated_loop.simps)
qed




text \<open>
  C5, as the code has it. When the fetch of a refresh raises an error: if the cached
  list is not empty (even if expired), the cached list is returned and the error is
  swallowed; if the cached list is empty, the error is raised to the caller.
\<close>

theorem stale_fallback:
  "(get_paginated (BASE_URL @ ''/user/following'') s = Some (Raise e, s1)
      \<and> (force \<or> CACHE_TIMEOUT \<le> now s - cache_timestamp_following s)
      \<and> cache_data_following s \<noteq> [] \<longrightarrow>
      get_following force s = Some (Return (cache_data_following s), s1)) \<and>
   (get_paginated (BASE_URL @ ''/user/following'') s = Some (Raise e, s1)
      \<and> cache_data_following s = [] \<longrightarrow>
      get_following force s = Some (Raise e, s1)) \<and>
   (get_paginated (BASE_URL @ ''/user/followers'') s = Some (Raise e, s1)
      \<and> (force \<or> CACHE_TIMEOUT \<le> now s - cache_timestamp_followers s)
      \<and> cache_data_followers s \<noteq> [] \<longrightarrow>
      get_followers force s = Some (Return (cache_data_followers s), s1)) \<and>
   (get_paginated (BASE_URL @ ''/user/followers'') s = Some (Raise e, s1)
      \<and> cache_data_followers s = [] \<longrightarrow>
      get_followers force s = Some (Raise e, s1))"
proof -
  have a: "get_following force s = Some (Return (cache_data_following s), s1)"
    if "get_paginated (BASE_URL @ ''/user/following'') s = Some (Raise e, s1)"
      and "force \<or> CACHE_TIMEOUT \<le> now s - cache_timestamp_following s"
      and "cache_data_following s \<noteq> []"
    using that get_paginated_frame(1) [OF that(1)]
    by (auto simp: get_following_def Let_def same_cache_def)
  have b: "get_following force s = Some (Raise e, s1)"
    if "get_paginated (BASE_URL @ ''/user/following'') s = Some (Raise e, s1)"
      and "cache_data_following s = []"
    using that get_paginated_frame(1) [OF that(1)]
    by (auto simp: get_following_def Let_def same_cache_def)
  have c: "get_followers force s = Some (Return (cache_data_followers s), s1)"
    if "get_paginated (BASE_URL @ ''/user/followers'') s = Some (Raise e, s1)"
      and "force \<or> CACHE_TIMEOUT \<le> now s - cache_timestamp_followers s"
      and "cache_data_followers s \<noteq> []"
    using that get_paginated_frame(1) [OF that(1)]
    by (auto simp: get_followers_def Let_def same_cache_def)
  have d: "get_followers force s = Some (Raise e, s1)"
    if "get_paginated (BASE_URL @ ''/user/followers'') s = Some (Raise e, s1)"
      and "cache_data_followers s = []"
    using that get_paginated_frame(1) [OF that(1)]
    by (auto simp: get_followers_def Let_def same_cache_def)
  show ?thesis using a b c d by blast
qed

theorem stale_fallback_witness:
  "get_following True (stale_cache offline)
     = Some (Return [''x''],
             after_refused ''https://api.github.com/user/following'' (stale_cache offline)) \<and>
   get_followers False (stale_cache offline)
     = Some (Return [''y''],
             after_refused ''https://api.github.com/user/followers'' (stale_cache offline)) \<and>
   get_following False (startup ''me'' 1000 offline)
     = Some (Raise (GitHubAPIError 0 ''connection refused''
                      ''https://api.github.com/user/following''),
             after_refused ''https://api.github.com/user/following''
               (startup ''me'' 1000 offline)) \<and>
   get_followers True (startup ''me'' 1000 offline)
     = Some (Raise (GitHubAPIError 0 ''connection refused''
                      ''https://api.github.com/user/followers''),
             after_refused ''https://api.github.com/user/followers''
               (startup ''me'' 1000 offline))"
proof -
  let ?e1 = "GitHubAPIError 0 ''connection refused'' ''https://api.github.com/user/following''"
  let ?e2 = "GitHubAPIError 0 ''connection refused'' ''https://api.github.com/user/followers''"
  let ?u1 = "''https://api.github.com/user/following''"
  let ?u2 = "''https://api.github.com/user/followers''"
  have p1: "get_paginated (BASE_URL @ ''/user/following'') (stale_cache offline)
              = Some (Raise ?e1, after_refused ?u1 (stale_cache offline))"
    by (simp add: err_defs get_paginated_loop.simps)
  have p2: "get_paginated (BASE_URL @ ''/user/followers'') (stale_cache offline)
              = Some (Raise ?e2, after_refused ?u2 (stale_cache offline))"
    by (simp add: err_defs get_paginated_loop.simps)
  have p3: "get_paginated (BASE_URL @ ''/user/following'') (startup ''me'' 1000 offline)
              = Some (Raise ?e1, after_refused ?u1 (startup ''me'' 1000 offline))"
    by (simp add: err_defs get_paginated_loop.simps)
  have p4: "get_paginated (BASE_URL @ ''/user/followers'') (startup ''me'' 1000 offline)
              = Some (Raise ?e2, after_refused ?u2 (startup ''me'' 1000 offline))"
    by (simp add: err_defs get_paginated_loop.simps)
  have 1: "get_following True (stale_cache offline)
             = Some (Return (cache_data_following (stale_cache offline)),
                     after_refused ?u1 (stale_cache offline))"
    by (rule stale_fallback [THEN conjunct1, rule_format, of _ ?e1])
       (simp add: p1, simp add: stale_cache_def)
  have 2: "get_followers False (stale_cache offline)
             = Some (Return (cache_data_followers (stale_cache offline)),
                     after_refused ?u2 (stale_cache offline))"
    by (rule stale_fallback [THEN conjunct2, THEN conjunct2, THEN conjunct1, rule_format, of _ ?e2])
       (simp add: p2, simp add: stale_cache_def startup_def CACHE_TIMEOUT_def)
  have 3: "get_following False (startup ''me'' 1000 offline)
             = Some (Raise ?e1, after_refused ?u1 (startup ''me'' 1000 offline))"
    by (rule stale_fallback [THEN conjunct2, THEN conjunct1, rule_format])
       (simp add: p3, simp add: startup_def)
  have 4: "get_followers True (startup ''me'' 1000 offline)
             = Some (Raise ?e2, after_refused ?u2 (startup ''me'' 1000 offline))"
    by (rule stale_fallback [THEN conjunct2, THEN conjunct2, THEN conjunct2, rule_format])
       (simp add: p4, simp add: startup_def)
  show ?thesis using 1 2 3 4 by (simp add: stale_cache_def)
qed

text \<open>
  C5 as it is stated fails for a cached value that is the empty list. The first read
  below fetches an empty following list and stores it; the forced refresh that follows
  fails in transport, and the error is raised although a value had been cached.
\<close>

theorem cached_empty_relation_is_no_fallback:
  "get_following False (nobody_start offline) = Some (Return [], nobody_cached offline) \<and>
   get_following True (nobody_cached offline)
     = Some (Raise (GitHubAPIError 0 ''connection refused''
                      ''https://api.github.com/user/following''),
             after_refused ''https://api.github.com/user/following'' (nobody_cached offline))"
  by (simp add: nobody_start_def nobody_cached_def run_defs after_refused_def
        get_paginated_loop.simps)

subsection \<open>Relationship snapshot\<close>

text \<open>
  C1. For every pair of lists \<open>following\<close> and \<open>followers\<close> that the two reads return,
  the snapshot of \<open>get_account_stats\<close> is made of the sets of step 3: the mutuals are the
  intersection, the non-mutuals are following without followers, those not followed back
  are followers without following; mutuals and non-mutuals make up following, mutuals
  and not-followed-back make up followers, and the three sets are pairwise disjoint.
  Every snapshot that the function returns with statistics has this form, for the lists
  that its two reads returned; and it does return one when the two reads return and the
  reset time can be formatted at line 383, which is the case when it could be formatted
  before the profile request and the quota headers of the profile answer can be read.
  For following a, b, c and followers b, c, d the sets are \<open>{a}\<close>, \<open>{d}\<close> and \<open>{b, c}\<close>.
\<close>

theorem get_account_stats_relationships:
  "(\<forall>st nm nfb m s3.
      get_account_stats force s = Some ((Stats st, nm, nfb, m), s3) \<longrightarrow>
      (\<exists>following followers s1 s2.
          get_following force s = Some (Return following, s1)
        \<and> get_followers force s1 = Some (Return followers, s2)
        \<and> m = set following \<inter> set followers
        \<and> nm = set following - set followers
        \<and> nfb = set followers - set following
        \<and> m \<union> nm = set following \<and> m \<union> nfb = set followers
        \<and> m \<inter> nm = {} \<and> m \<inter> nfb = {} \<and> nm \<inter> nfb = {}
        \<and> stats_mutuals st = card m \<and> stats_non_mutuals st = card nm
        \<and> stats_not_following_back st = card nfb)) \<and>
   (\<forall>following followers s1 s2.
      get_following force s = Some (Return following, s1)
        \<and> get_followers force s1 = Some (Return followers, s2)
        \<and> quota_ok s2 \<and> reply_ok (fromtimestamp_ok s2) (shd (server s2)) \<longrightarrow>
      (\<exists>st s3. get_account_stats force s
                  = Some ((Stats st, set following - set followers,
                           set followers - set following,
                           set following \<inter> set followers), s3))) \<and>
   relationships following followers
     = (set following - set followers, set followers - set following,
        set following \<inter> set followers) \<and>
   relationships [''a'', ''b'', ''c''] [''b'', ''c'', ''d'']
     = ({''a''}, {''d''}, {''b'', ''c''})"
proof -
  have a: "\<exists>following followers s1 s2.
          get_following force s = Some (Return following, s1)
        \<and> get_followers force s1 = Some (Return followers, s2)
        \<and> m = set following \<inter> set followers
        \<and> nm = set following - set followers
        \<and> nfb = set followers - set following
        \<and> m \<union> nm = set following \<and> m \<union> nfb = set followers
        \<and> m \<inter> nm = {} \<and> m \<inter> nfb = {} \<and> nm \<inter> nfb = {}
        \<and> stats_mutuals st = card m \<and> stats_non_mutuals st = card nm
        \<and> stats_not_following_back st = card nfb"
    if run: "get_account_stats force s = Some ((Stats st, nm, nfb, m), s3)"
    for st nm nfb m s3
  proof -
    obtain p where p: "get_following force s = Some p"
      using run by (cases "get_following force s") (simp_all add: get_account_stats_def)
    obtain x s1 where "p = (x, s1)" by (cases p)
    with p have f0: "get_following force s = Some (x, s1)" by simp
    obtain following where x: "x = Return following"
      using run f0 by (cases x) (simp_all add: get_account_stats_def)
    note f = f0 [unfolded x]
    obtain p' where p': "get_followers force s1 = Some p'"
      using run f by (cases "get_followers force s1") (simp_all add: get_account_stats_def)
    obtain y s2 where "p' = (y, s2)" by (cases p')
    with p' have g0: "get_followers force s1 = Some (y, s2)" by simp
    obtain followers where y: "y = Return followers"
      using run f g0 by (cases y) (simp_all add: get_account_stats_def)
    note g = g0 [unfolded y]
    obtain info s4 where u: "get_user_info (USERNAME s2) s2 = (info, s4)"
      by (cases "get_user_info (USERNAME s2) s2")
    have ok: "fromtimestamp_ok s4 (rate_limit_reset s4)"
      using run f g u
      by (cases "fromtimestamp_ok s4 (rate_limit_reset s4)")
         (simp_all add: get_account_stats_def relationships_sets)
    have val: "get_account_stats force s =
          Some ((Stats \<lparr>total_following = length following,
                         total_followers = length followers,
                         stats_mutuals = card (set following \<inter> set followers),
                         stats_non_mutuals = card (set following - set followers),
                         stats_not_following_back = card (set followers - set following),
                         profile_info = info,
                         rate_limit = (rate_limit_remaining s4, rate_limit_reset s4)\<rparr>,
                 set following - set followers, set followers - set following,
                 set following \<inter> set followers), s4)"
      using f g u ok by (simp add: get_account_stats_def relationships_sets)
    note eq = trans [OF run [symmetric] val]
    have r: "m = set following \<inter> set followers" "nm = set following - set followers"
      "nfb = set followers - set following"
      using eq by simp_all
    have cs: "stats_mutuals st = card (set following \<inter> set followers)"
      "stats_non_mutuals st = card (set following - set followers)"
      "stats_not_following_back st = card (set followers - set following)"
      using eq by auto
    have sets: "(set following \<inter> set followers) \<union> (set following - set followers) = set following"
      "(set following \<inter> set followers) \<union> (set followers - set following) = set followers"
      "(set following \<inter> set followers) \<inter> (set following - set followers) = {}"
      "(set following \<inter> set followers) \<inter> (set followers - set following) = {}"
      "(set following - set followers) \<inter> (set followers - set following) = {}"
      by blast+
    have "get_following force s = Some (Return following, s1)
        \<and> get_followers force s1 = Some (Return followers, s2)
        \<and> m = set following \<inter> set followers
        \<and> nm = set following - set followers
        \<and> nfb = set followers - set following
        \<and> m \<union> nm = set following \<and> m \<union> nfb = set followers
        \<and> m \<inter> nm = {} \<and> m \<inter> nfb = {} \<and> nm \<inter> nfb = {}
        \<and> stats_mutuals st = card m \<and> stats_non_mutuals st = card nm
        \<and> stats_not_following_back st = card nfb"
      unfolding r using f g sets cs by simp
    then show ?thesis by (intro exI)
  qed
  have b: "\<exists>st s3. get_account_stats force s
                  = Some ((Stats st, set following - set followers,
                           set followers - set following,
                           set following \<inter> set followers), s3)"
    if f: "get_following force s = Some (Return following, s1)"
      and g: "get_followers force s1 = Some (Return followers, s2)"
      and q: "quota_ok s2" and h: "reply_ok (fromtimestamp_ok s2) (shd (server s2))"
    for following followers s1 s2
  proof -
    obtain info s3 where u: "get_user_info (USERNAME s2) s2 = (info, s3)"
      by (cases "get_user_info (USERNAME s2) s2")
    have "s3 = snd (make_api_request GET (BASE_URL @ ''/users/'' @ USERNAME s2) None s2)"
      using get_user_info_snd [of "USERNAME s2" s2] u by simp
    then have "quota_ok s3" using make_api_request_quota_ok [OF q h] by simp
    then have ok: "fromtimestamp_ok s3 (rate_limit_reset s3)" by (simp add: quota_ok_def)
    show ?thesis
      using f g u ok by (simp add: get_account_stats_def relationships_sets)
  qed
  have c: "relationships [''a'', ''b'', ''c''] [''b'', ''c'', ''d'']
             = ({''a''}, {''d''}, {''b'', ''c''})"
    by (simp add: relationships_def Let_def insert_Diff_if Int_insert_left insert_commute)
  have a': "\<forall>st nm nfb m s3.
      get_account_stats force s = Some ((Stats st, nm, nfb, m), s3) \<longrightarrow>
      (\<exists>following followers s1 s2.
          get_following force s = Some (Return following, s1)
        \<and> get_followers force s1 = Some (Return followers, s2)
        \<and> m = set following \<inter> set followers
        \<and> nm = set following - set followers
        \<and> nfb = set followers - set following
        \<and> m \<union> nm = set following \<and> m \<union> nfb = set followers
        \<and> m \<inter> nm = {} \<and> m \<inter> nfb = {} \<and> nm \<inter> nfb = {}
        \<and> stats_mutuals st = card m \<and> stats_non_mutuals st = card nm
        \<and> stats_not_following_back st = card nfb)"
    using a by (intro allI impI)
  have b': "\<forall>following followers s1 s2.
      get_following force s = Some (Return following, s1)
        \<and> get_followers force s1 = Some (Return followers, s2)
        \<and> quota_ok s2 \<and> reply_ok (fromtimestamp_ok s2) (shd (server s2)) \<longrightarrow>
      (\<exists>st s3. get_account_stats force s
                  = Some ((Stats st, set following - set followers,
                           set followers - set following,
                           set following \<inter> set followers), s3))"
  proof (intro allI impI, elim conjE)
    fix following followers s1 s2
    assume "get_following force s = Some (Return following, s1)"
      "get_followers force s1 = Some (Return followers, s2)"
      "quota_ok s2" "reply_ok (fromtimestamp_ok s2) (shd (server s2))"
    then show "\<exists>st s3. get_account_stats force s
                  = Some ((Stats st, set following - set followers,
                           set followers - set following,
                           set following \<inter> set followers), s3)"
      by (rule b)
  qed
  from a' b' relationships_sets [of following followers] c show ?thesis
    by (intro conjI)
qed

theorem get_account_stats_relationships_witness:
  "get_following False warm_cache = Some (Return [''a'', ''b'', ''c''], warm_cache) \<and>
   get_followers False warm_cache = Some (Return [''b'', ''c'', ''d''], warm_cache) \<and>
   quota_ok warm_cache \<and> reply_ok (fromtimestamp_ok warm_cache) (shd (server warm_cache)) \<and>
   (\<exists>st s3. get_account_stats False warm_cache
              = Some ((Stats st, {''a''}, {''d''}, {''b'', ''c''}), s3)
           \<and> stats_mutuals st = 2 \<and> stats_non_mutuals st = 1
           \<and> stats_not_following_back st = 1)"
proof -
  have f: "get_following False warm_cache = Some (Return [''a'', ''b'', ''c''], warm_cache)"
    by (simp add: get_following_def warm_cache_def startup_def CACHE_TIMEOUT_def)
  have g: "get_followers False warm_cache = Some (Return [''b'', ''c'', ''d''], warm_cache)"
    by (simp add: get_followers_def warm_cache_def startup_def CACHE_TIMEOUT_def)
  have q: "quota_ok warm_cache"
    by (simp add: quota_ok_def warm_cache_def startup_def)
  have h: "reply_ok (fromtimestamp_ok warm_cache) (shd (server warm_cache))"
    by (simp add: reply_ok_def warm_cache_def startup_def offline_def)
  have i: "set [''a'', ''b'', ''c''] \<inter> set [''b'', ''c'', ''d''] = {''b'', ''c''}"
    and d1: "set [''a'', ''b'', ''c''] - set [''b'', ''c'', ''d''] = {''a''}"
    and d2: "set [''b'', ''c'', ''d''] - set [''a'', ''b'', ''c''] = {''d''}"
    by (simp_all add: insert_Diff_if Int_insert_left insert_commute)
  have c: "card {''b'', ''c''} = 2" "card {''a''} = 1" "card {''d''} = 1"
    by simp_all
  note T = get_account_stats_relationships [of False warm_cache "[]" "[]"]
  have "\<exists>st s3. get_account_stats False warm_cache
                  = Some ((Stats st, set [''a'', ''b'', ''c''] - set [''b'', ''c'', ''d''],
                           set [''b'', ''c'', ''d''] - set [''a'', ''b'', ''c''],
                           set [''a'', ''b'', ''c''] \<inter> set [''b'', ''c'', ''d'']), s3)"
    using f g q h by (intro T [THEN conjunct2, THEN conjunct1, rule_format] conjI)
  then obtain st s3 where
    r: "get_account_stats False warm_cache
          = Some ((Stats st, {''a''}, {''d''}, {''b'', ''c''}), s3)"
    unfolding i d1 d2 by blast
  from T [THEN conjunct1, rule_format, OF r]
  have cs: "stats_mutuals st = card {''b'', ''c''}" "stats_non_mutuals st = card {''a''}"
    "stats_not_following_back st = card {''d''}"
    by blast+
  have "\<exists>st s3. get_account_stats False warm_cache
              = Some ((Stats st, {''a''}, {''d''}, {''b'', ''c''}), s3)
           \<and> stats_mutuals st = 2 \<and> stats_non_mutuals st = 1
           \<and> stats_not_following_back st = 1"
    using r cs c by (intro exI [of _ st] exI [of _ s3]) simp
  then show ?thesis using f g q h by simp
qed

subsection \<open>Single-entity operations\<close>




subsection \<open>Rate limit\<close>




subsection \<open>Follow\<close>

text \<open>
  C4. \<open>follow_user\<close> reads the following list through \<open>get_following\<close>, which fetches
  when the cache is empty or expired. Right after import the call below sends a GET for
  the whole following list before its PUT; when that fetch fails, it returns false
  without any PUT; and since the name is lowercased before the membership test while the
  cached names keep their case, a cached \<open>Alice\<close> does not stop the PUT for \<open>Alice\<close>.
\<close>

theorem follow_user_fetches_before_put:
  "follow_user ''alice''
      (startup ''me'' 1000 (Http (users_response [''bob''] None) ## Http (status_response 204) ## offline))
     \<noteq> None
   \<and> map_option fst (follow_user ''alice''
      (startup ''me'' 1000 (Http (users_response [''bob''] None) ## Http (status_response 204) ## offline)))
     = Some True
   \<and> map_option (requests \<circ> trace \<circ> snd) (follow_user ''alice''
      (startup ''me'' 1000 (Http (users_response [''bob''] None) ## Http (status_response 204) ## offline)))
     = Some [(GET, ''https://api.github.com/user/following''),
             (PUT, ''https://api.github.com/user/following/alice'')]
   \<and> map_option fst (follow_user ''alice'' (startup ''me'' 1000 offline)) = Some False
   \<and> map_option (requests \<circ> trace \<circ> snd) (follow_user ''alice'' (startup ''me'' 1000 offline))
     = Some [(GET, ''https://api.github.com/user/following'')]
   \<and> map_option (requests \<circ> trace \<circ> snd)
       (follow_user ''Alice''
          ((startup ''me'' 1000 (Http (status_response 204) ## offline))
             \<lparr>cache_data_following := [''Alice''], cache_timestamp_following := 900\<rparr>))
     = Some [(PUT, ''https://api.github.com/user/following/alice'')]"
  by (simp add: follow_user_def strip_names get_following_def get_paginated_def
        make_api_request_def calculate_adaptive_delay_def MIN_RATE_LIMIT_THRESHOLD_def sleep_def
        update_rate_limit_info_def page_params_def startup_def users_response_def
        status_response_def BASE_URL_def CACHE_TIMEOUT_def offline_def Let_def
        get_paginated_loop.simps)

subsection \<open>Bulk runs\<close>

lemmas bulk_defs = unfollow_user_def
  make_api_request_def calculate_adaptive_delay_def MIN_RATE_LIMIT_THRESHOLD_def sleep_def
  update_rate_limit_info_def startup_def status_response_def users_response_def
  BASE_URL_def CACHE_TIMEOUT_def page_params_def Let_def offline_def
  progress_pause_def unfollow_line_def str_nat_digits strip_names
  follow_user_def get_following_def get_followers_def get_paginated_def
  follow_line_def follow_summary_def unfollow_summary_def get_user_info_def

text \<open>
  C9. \<open>follow_selected_users\<close> has no handler around the refresh that follows its
  loop. Right after import, in front of a server that serves an empty following list,
  answers 204 to the PUT and is down from then on, the loop follows the one identity
  given and records its line; the refresh of line 657 then raises, since nothing is
  cached to fall back on, and the error leaves the function: no summary is returned for
  a run that has been carried out, after the requests GET, PUT and GET. The entry point
  \<open>execute_full_unfollow\<close>, which has a handler, returns its summary: for five
  identities of which the second and the fourth fail it reads 3/5 and lists the five
  outcomes in input order.
\<close>

theorem follow_selected_users_loses_summary:
  "map_option fst (execute_full_unfollow (\<lambda>A. five_users) five_cached)
     = Some (Text (fire_mark @ '' Mass Unfollow Complete!'' @ [CHR 0x0A]
                   @ ''Successfully unfollowed 3/5 users'' @ [CHR 0x0A, CHR 0x0A]
                   @ ok_mark @ '' [1/5] Unfollowed @u1'' @ [CHR 0x0A]
                   @ fail_mark @ '' [2/5] Failed to unfollow @u2'' @ [CHR 0x0A]
                   @ ok_mark @ '' [3/5] Unfollowed @u3'' @ [CHR 0x0A]
                   @ fail_mark @ '' [4/5] Failed to unfollow @u4'' @ [CHR 0x0A]
                   @ ok_mark @ '' [5/5] Unfollowed @u5''))
   \<and> map_option (\<lambda>(k, results, s'). (k, results))
         (follow_selected_users_loop [''alice''] 0 [] cold_follow)
       = Some (1, [ok_mark @ '' Followed @alice''])
   \<and> map_option fst (follow_selected_users ''alice'' cold_follow)
       = Some (Raise (GitHubAPIError 0 ''connection refused''
                        ''https://api.github.com/user/following''))
   \<and> map_option (requests \<circ> trace \<circ> snd) (follow_selected_users ''alice'' cold_follow)
       = Some [(GET, ''https://api.github.com/user/following''),
               (PUT, ''https://api.github.com/user/following/alice''),
               (GET, ''https://api.github.com/user/following'')]"
proof -
  have five: "map_option fst (execute_full_unfollow (\<lambda>A. five_users) five_cached)
     = Some (Text (fire_mark @ '' Mass Unfollow Complete!'' @ [CHR 0x0A]
                   @ ''Successfully unfollowed 3/5 users'' @ [CHR 0x0A, CHR 0x0A]
                   @ ok_mark @ '' [1/5] Unfollowed @u1'' @ [CHR 0x0A]
                   @ fail_mark @ '' [2/5] Failed to unfollow @u2'' @ [CHR 0x0A]
                   @ ok_mark @ '' [3/5] Unfollowed @u3'' @ [CHR 0x0A]
                   @ fail_mark @ '' [4/5] Failed to unfollow @u4'' @ [CHR 0x0A]
                   @ ok_mark @ '' [5/5] Unfollowed @u5''))"
    by (simp add: execute_full_unfollow_def get_account_stats_def relationships_def
          five_cached_def five_users_def bulk_defs insert_Diff_if
          get_paginated_loop.simps del: str_nat.simps)
  have cold: "map_option (\<lambda>(k, results, s'). (k, results))
         (follow_selected_users_loop [''alice''] 0 [] cold_follow)
       = Some (1, [ok_mark @ '' Followed @alice''])
   \<and> map_option fst (follow_selected_users ''alice'' cold_follow)
       = Some (Raise (GitHubAPIError 0 ''connection refused''
                        ''https://api.github.com/user/following''))
   \<and> map_option (requests \<circ> trace \<circ> snd) (follow_selected_users ''alice'' cold_follow)
       = Some [(GET, ''https://api.github.com/user/following''),
               (PUT, ''https://api.github.com/user/following/alice''),
               (GET, ''https://api.github.com/user/following'')]"
    by (simp add: follow_selected_users_def split_alice cold_follow_def bulk_defs
          get_paginated_loop.simps del: str_nat.simps split.simps)
  from five cold show ?thesis by (rule conjI)
qed

end
